theory Spec2Isabelle
  imports Main "HOL-Library.Char_ord" "HOL-Library.List_Lexorder" "HOL-Library.Option_ord"
begin

section \<open>Values between Python and SQLite\<close>

text \<open>
  The dataclasses of \<^verbatim>\<open>core/database.py\<close> annotate their fields but Python does not
  enforce the annotations.  A field that \<^verbatim>\<open>collect_posts\<close> fills from a fetched post
  record by \<^verbatim>\<open>post_data.get(key, default)\<close> is therefore modelled as a \<open>pyval\<close>:
  \<^item> \<open>PyNone\<close>: Python \<^verbatim>\<open>None\<close> (a JSON null), bound by sqlite3 as SQL NULL;
  \<^item> \<open>PyVal v\<close>: a value of the annotated type (\<^verbatim>\<open>str\<close> or \<^verbatim>\<open>int\<close>);
  \<^item> \<open>PyUnsupported\<close>: an object sqlite3 cannot bind (a \<^verbatim>\<open>dict\<close> or \<^verbatim>\<open>list\<close>);
    \<^verbatim>\<open>cursor.execute\<close> raises "Error binding parameter" before the statement runs.

  Text is compared the way SQLite's BINARY collation does, byte by byte with a proper
  prefix smaller: the lexicographic order on \<open>string\<close> with the byte order on \<open>char\<close>.
\<close>

datatype 'a pyval = PyNone | PyVal 'a | PyUnsupported

datatype error =
    BindingError      \<comment> \<open>sqlite3: Error binding parameter (unsupported type)\<close>
  | IntegrityError    \<comment> \<open>sqlite3.IntegrityError: NOT NULL constraint failed\<close>
  | TypeError         \<comment> \<open>\<^verbatim>\<open>cursor.fetchone()[0]\<close> on \<^verbatim>\<open>None\<close>\<close>
  | CollaboratorError \<comment> \<open>an exception raised by a platform fetcher\<close>

definition supported :: "'a pyval \<Rightarrow> bool" where
  "supported v = (case v of PyUnsupported \<Rightarrow> False | _ \<Rightarrow> True)"

text \<open>\<^verbatim>\<open>d.get(key, default)\<close>: \<open>None\<close> is an absent key.\<close>

definition dict_get :: "'a option \<Rightarrow> 'a \<Rightarrow> 'a" where
  "dict_get entry dflt = (case entry of None \<Rightarrow> dflt | Some v \<Rightarrow> v)"

section \<open>Data model\<close>

text \<open>
  The four dataclasses, as the callers construct them with \<^verbatim>\<open>id=None\<close>, and the rows of
  the four tables.  A row carries the \<^verbatim>\<open>INTEGER PRIMARY KEY\<close> as an \<open>int\<close>; a nullable
  column that is filled from a \<open>pyval\<close> holds \<open>None\<close> for NULL.
\<close>

record Account =
  a_platform :: string
  a_username :: string
  a_display_name :: string
  a_account_id :: string
  a_follower_count :: int
  a_following_count :: int
  a_post_count :: int
  a_bio :: string

record accounts_row =
  ra_id :: int
  ra_platform :: string
  ra_username :: string
  ra_display_name :: string
  ra_account_id :: string
  ra_follower_count :: int
  ra_following_count :: int
  ra_post_count :: int
  ra_bio :: string
  ra_created_at :: string
  ra_updated_at :: string

record Post =
  p_id :: "int option"
  p_account_id :: int
  p_platform :: string
  p_post_id :: "string pyval"
  p_post_type :: "string pyval"
  p_caption :: "string pyval"
  p_published_at :: "string pyval"
  p_url :: "string pyval"
  p_thumbnail_url :: "string pyval"

record posts_row =
  rp_id :: int
  rp_account_id :: int
  rp_platform :: string
  rp_post_id :: string
  rp_post_type :: "string option"
  rp_caption :: "string option"
  rp_published_at :: "string option"
  rp_url :: "string option"
  rp_thumbnail_url :: "string option"
  rp_created_at :: string

record PostMetrics =
  pm_post_id :: int
  pm_collected_at :: string
  pm_views :: "int pyval"
  pm_likes :: "int pyval"
  pm_comments :: "int pyval"
  pm_shares :: "int pyval"
  pm_saves :: "int pyval"
  pm_plays :: "int pyval"
  pm_reach :: "int pyval"
  pm_impressions :: "int pyval"

record post_metrics_row =
  rpm_id :: int
  rpm_post_id :: int
  rpm_collected_at :: string
  rpm_views :: "int option"
  rpm_likes :: "int option"
  rpm_comments :: "int option"
  rpm_shares :: "int option"
  rpm_saves :: "int option"
  rpm_plays :: "int option"
  rpm_reach :: "int option"
  rpm_impressions :: "int option"

record AccountMetrics =
  am_account_id :: int
  am_collected_at :: string
  am_follower_count :: int
  am_following_count :: int
  am_post_count :: int
  am_total_likes :: int
  am_total_comments :: int
  am_total_views :: int

record account_metrics_row =
  ram_id :: int
  ram_account_id :: int
  ram_collected_at :: string
  ram_follower_count :: int
  ram_following_count :: int
  ram_post_count :: int
  ram_total_likes :: int
  ram_total_comments :: int
  ram_total_views :: int

text \<open>
  The database file: the four tables in rowid order and, for each, the counter SQLite
  keeps in \<^verbatim>\<open>sqlite_sequence\<close> for an \<^verbatim>\<open>AUTOINCREMENT\<close> key.  \<^verbatim>\<open>_get_conn\<close> opens a
  new connection for every operation and never issues \<^verbatim>\<open>PRAGMA foreign_keys = ON\<close>, so
  the \<^verbatim>\<open>FOREIGN KEY\<close> clauses of the schema are parsed and not enforced.
\<close>

record database =
  accounts :: "accounts_row list"
  posts :: "posts_row list"
  post_metrics :: "post_metrics_row list"
  account_metrics :: "account_metrics_row list"
  seq_accounts :: int
  seq_posts :: int
  seq_post_metrics :: int
  seq_account_metrics :: int

definition init_db :: database where
  "init_db = \<lparr>accounts = [], posts = [], post_metrics = [], account_metrics = [],
     seq_accounts = 0, seq_posts = 0, seq_post_metrics = 0, seq_account_metrics = 0\<rparr>"

text \<open>
  The rowid of an \<^verbatim>\<open>AUTOINCREMENT\<close> insert: one more than the largest rowid in the table
  (1 for an empty table) and more than the recorded sequence.  SQLite computes it before
  it checks the constraints of the new row and writes it back to the sequence when the
  statement ends, also when the row was ignored.
\<close>

fun max_rowid :: "int list \<Rightarrow> int" where
  "max_rowid [] = 0"
| "max_rowid [i] = i"
| "max_rowid (i # j # ids) = max i (max_rowid (j # ids))"

definition new_rowid :: "int \<Rightarrow> int list \<Rightarrow> int" where
  "new_rowid seq ids = max (if ids = [] then 1 else max_rowid ids + 1) (seq + 1)"

section \<open>Accounts\<close>

text \<open>
  \<^verbatim>\<open>add_account\<close>: \<^verbatim>\<open>INSERT OR REPLACE INTO accounts (platform, username, ...)\<close>.  The
  statement names no id, so the new row takes a fresh rowid; a row that conflicts on
  \<^verbatim>\<open>UNIQUE(platform, username)\<close> is deleted before the new one is stored.
\<close>

definition add_account :: "string \<Rightarrow> Account \<Rightarrow> database \<Rightarrow> int \<times> database" where
  "add_account now account db =
     (let account_id = new_rowid (seq_accounts db) (map ra_id (accounts db));
          kept = filter (\<lambda>r. \<not> (ra_platform r = a_platform account \<and>
                                 ra_username r = a_username account)) (accounts db);
          row = \<lparr>ra_id = account_id, ra_platform = a_platform account,
                 ra_username = a_username account, ra_display_name = a_display_name account,
                 ra_account_id = a_account_id account,
                 ra_follower_count = a_follower_count account,
                 ra_following_count = a_following_count account,
                 ra_post_count = a_post_count account, ra_bio = a_bio account,
                 ra_created_at = now, ra_updated_at = now\<rparr>
      in (account_id, db\<lparr>accounts := kept @ [row], seq_accounts := account_id\<rparr>))"

definition get_account :: "database \<Rightarrow> string \<Rightarrow> string \<Rightarrow> accounts_row option" where
  "get_account db platform username =
     find (\<lambda>r. ra_platform r = platform \<and> ra_username r = username) (accounts db)"

definition get_account_by_id :: "database \<Rightarrow> int \<Rightarrow> accounts_row option" where
  "get_account_by_id db account_id = find (\<lambda>r. ra_id r = account_id) (accounts db)"

text \<open>\<^verbatim>\<open>update_account\<close>: \<^verbatim>\<open>UPDATE accounts SET display_name = ?, ... WHERE id = ?\<close>.\<close>

definition update_account :: "string \<Rightarrow> accounts_row \<Rightarrow> database \<Rightarrow> database" where
  "update_account now account db =
     db\<lparr>accounts := map (\<lambda>r. if ra_id r = ra_id account
          then r\<lparr>ra_display_name := ra_display_name account,
                 ra_follower_count := ra_follower_count account,
                 ra_following_count := ra_following_count account,
                 ra_post_count := ra_post_count account,
                 ra_bio := ra_bio account, ra_updated_at := now\<rparr>
          else r) (accounts db)\<rparr>"

text \<open>
  \<^verbatim>\<open>delete_account\<close>: four \<^verbatim>\<open>DELETE\<close> statements, snapshots of the account's posts first.
  None of them can fail, and nothing checks that the account exists.
\<close>

definition delete_account :: "int \<Rightarrow> database \<Rightarrow> database" where
  "delete_account account_id db =
     (let db1 = db\<lparr>post_metrics := filter (\<lambda>m. rpm_post_id m \<notin>
                    set (map rp_id (filter (\<lambda>p. rp_account_id p = account_id) (posts db))))
                    (post_metrics db)\<rparr>;
          db2 = db1\<lparr>posts := filter (\<lambda>p. rp_account_id p \<noteq> account_id) (posts db1)\<rparr>;
          db3 = db2\<lparr>account_metrics :=
                    filter (\<lambda>m. ram_account_id m \<noteq> account_id) (account_metrics db2)\<rparr>
      in db3\<lparr>accounts := filter (\<lambda>r. ra_id r \<noteq> account_id) (accounts db3)\<rparr>)"

section \<open>Posts\<close>

definition to_sql :: "'a pyval \<Rightarrow> 'a option" where
  "to_sql v = (case v of PyVal x \<Rightarrow> Some x | _ \<Rightarrow> None)"

text \<open>
  \<^verbatim>\<open>INSERT OR IGNORE INTO posts\<close>, on the connection \<^verbatim>\<open>add_post\<close> has just opened.  The row
  is skipped when it breaks \<^verbatim>\<open>NOT NULL\<close> on \<^verbatim>\<open>post_id\<close> or \<^verbatim>\<open>UNIQUE(platform, post_id)\<close>.
  The result is \<^verbatim>\<open>cursor.lastrowid\<close>, which on a new connection is 0 unless a row went in,
  and the database as the open transaction sees it.
\<close>

definition insert_or_ignore_post :: "string \<Rightarrow> Post \<Rightarrow> database \<Rightarrow> int \<times> database" where
  "insert_or_ignore_post now post db =
     (let rowid = new_rowid (seq_posts db) (map rp_id (posts db));
          db1 = db\<lparr>seq_posts := rowid\<rparr>
      in case p_post_id post of
           PyVal post_id \<Rightarrow>
             if list_ex (\<lambda>r. rp_platform r = p_platform post \<and> rp_post_id r = post_id) (posts db)
             then (0, db1)
             else (rowid, db1\<lparr>posts := posts db @
                    [\<lparr>rp_id = rowid, rp_account_id = p_account_id post,
                      rp_platform = p_platform post, rp_post_id = post_id,
                      rp_post_type = to_sql (p_post_type post),
                      rp_caption = to_sql (p_caption post),
                      rp_published_at = to_sql (p_published_at post),
                      rp_url = to_sql (p_url post),
                      rp_thumbnail_url = to_sql (p_thumbnail_url post),
                      rp_created_at = now\<rparr>]\<rparr>)
         | _ \<Rightarrow> (0, db1))"

text \<open>\<^verbatim>\<open>SELECT id FROM posts WHERE platform = ? AND post_id = ?\<close> and \<^verbatim>\<open>fetchone()\<close>;
  a NULL parameter equals nothing.\<close>

definition select_post_id :: "database \<Rightarrow> string \<Rightarrow> string pyval \<Rightarrow> int option" where
  "select_post_id db platform post_id =
     (case post_id of
        PyVal s \<Rightarrow> map_option rp_id
          (find (\<lambda>r. rp_platform r = platform \<and> rp_post_id r = s) (posts db))
      | _ \<Rightarrow> None)"

text \<open>
  \<^verbatim>\<open>add_post\<close>.  An exception leaves the function before \<^verbatim>\<open>conn.commit()\<close>, so the
  database is then the one the call started with.
\<close>

definition add_post :: "string \<Rightarrow> Post \<Rightarrow> database \<Rightarrow> (error + int) \<times> database" where
  "add_post now post db =
     (if \<not> (supported (p_post_id post) \<and> supported (p_post_type post) \<and>
             supported (p_caption post) \<and> supported (p_published_at post) \<and>
             supported (p_url post) \<and> supported (p_thumbnail_url post))
      then (Inl BindingError, db)
      else let (lastrowid, db1) = insert_or_ignore_post now post db
           in if lastrowid = 0
              then (case select_post_id db1 (p_platform post) (p_post_id post) of
                      None \<Rightarrow> (Inl TypeError, db)
                    | Some post_id \<Rightarrow> (Inr post_id, db1))
              else (Inr lastrowid, db1))"

definition get_post_by_id :: "database \<Rightarrow> int \<Rightarrow> posts_row option" where
  "get_post_by_id db post_id = find (\<lambda>r. rp_id r = post_id) (posts db)"

section \<open>Snapshots\<close>

text \<open>\<^verbatim>\<open>add_post_metrics\<close>: a plain \<^verbatim>\<open>INSERT INTO post_metrics\<close>; the foreign key on
  \<^verbatim>\<open>post_id\<close> is not enforced on this connection.\<close>

definition add_post_metrics :: "PostMetrics \<Rightarrow> database \<Rightarrow> (error + int) \<times> database" where
  "add_post_metrics metrics db =
     (if \<not> (supported (pm_views metrics) \<and> supported (pm_likes metrics) \<and>
             supported (pm_comments metrics) \<and> supported (pm_shares metrics) \<and>
             supported (pm_saves metrics) \<and> supported (pm_plays metrics) \<and>
             supported (pm_reach metrics) \<and> supported (pm_impressions metrics))
      then (Inl BindingError, db)
      else let metrics_id = new_rowid (seq_post_metrics db) (map rpm_id (post_metrics db))
           in (Inr metrics_id,
               db\<lparr>post_metrics := post_metrics db @
                    [\<lparr>rpm_id = metrics_id, rpm_post_id = pm_post_id metrics,
                      rpm_collected_at = pm_collected_at metrics,
                      rpm_views = to_sql (pm_views metrics),
                      rpm_likes = to_sql (pm_likes metrics),
                      rpm_comments = to_sql (pm_comments metrics),
                      rpm_shares = to_sql (pm_shares metrics),
                      rpm_saves = to_sql (pm_saves metrics),
                      rpm_plays = to_sql (pm_plays metrics),
                      rpm_reach = to_sql (pm_reach metrics),
                      rpm_impressions = to_sql (pm_impressions metrics)\<rparr>],
                  seq_post_metrics := metrics_id\<rparr>))"

definition add_account_metrics :: "AccountMetrics \<Rightarrow> database \<Rightarrow> int \<times> database" where
  "add_account_metrics metrics db =
     (let metrics_id = new_rowid (seq_account_metrics db) (map ram_id (account_metrics db))
      in (metrics_id,
          db\<lparr>account_metrics := account_metrics db @
               [\<lparr>ram_id = metrics_id, ram_account_id = am_account_id metrics,
                 ram_collected_at = am_collected_at metrics,
                 ram_follower_count = am_follower_count metrics,
                 ram_following_count = am_following_count metrics,
                 ram_post_count = am_post_count metrics,
                 ram_total_likes = am_total_likes metrics,
                 ram_total_comments = am_total_comments metrics,
                 ram_total_views = am_total_views metrics\<rparr>],
             seq_account_metrics := metrics_id\<rparr>))"

section \<open>Latest snapshot per post\<close>













section \<open>Collection\<close>

text \<open>
  What a platform fetcher hands to \<^verbatim>\<open>BaseCollector\<close>: dictionaries.  A field is \<open>None\<close>
  when the key is absent, so that \<^verbatim>\<open>.get\<close> takes its default.  \<^verbatim>\<open>fetch_account_info\<close>
  yields \<open>Inl\<close> when it raises, \<open>Inr None\<close> when it returns \<^verbatim>\<open>None\<close> or anything else
  falsy (\<^verbatim>\<open>if not account_data\<close>), and \<open>Inr (Some d)\<close> for a non-empty dictionary.
\<close>

record account_data =
  ad_display_name :: "string option"
  ad_account_id :: "string option"
  ad_follower_count :: "int option"
  ad_following_count :: "int option"
  ad_post_count :: "int option"
  ad_bio :: "string option"

record post_data =
  pd_post_id :: "string pyval option"
  pd_post_type :: "string pyval option"
  pd_caption :: "string pyval option"
  pd_published_at :: "string pyval option"
  pd_url :: "string pyval option"
  pd_thumbnail_url :: "string pyval option"
  pd_views :: "int pyval option"
  pd_likes :: "int pyval option"
  pd_comments :: "int pyval option"
  pd_shares :: "int pyval option"
  pd_saves :: "int pyval option"
  pd_plays :: "int pyval option"
  pd_reach :: "int pyval option"
  pd_impressions :: "int pyval option"

record collector =
  c_platform :: string
  c_fetch_account_info :: "string \<Rightarrow> error + account_data option"
  c_fetch_account_posts :: "string \<Rightarrow> int \<Rightarrow> error + post_data list"

text \<open>
  The state a collection runs in: the database, the calls made to the platform so far,
  and the clock.  \<open>w_clock w n\<close> is what the \<open>n\<close>-th \<^verbatim>\<open>datetime.now().isoformat()\<close> returns.
\<close>

datatype call = FetchAccountInfo string | FetchAccountPosts string int

record world =
  w_db :: database
  w_calls :: "call list"
  w_clock :: "nat \<Rightarrow> string"
  w_ticks :: nat

definition datetime_now :: "world \<Rightarrow> string \<times> world" where
  "datetime_now w = (w_clock w (w_ticks w), w\<lparr>w_ticks := w_ticks w + 1\<rparr>)"

text \<open>
  \<^verbatim>\<open>collect_account\<close>.  The account object it returns is written as a row: in the branch
  that creates the account the object keeps the dataclass defaults \<^verbatim>\<open>created_at = ""\<close> and
  \<^verbatim>\<open>updated_at = ""\<close>.
\<close>

definition collect_account ::
    "collector \<Rightarrow> string \<Rightarrow> world \<Rightarrow> (error + accounts_row option) \<times> world" where
  "collect_account c username w =
     (let w1 = w\<lparr>w_calls := w_calls w @ [FetchAccountInfo username]\<rparr>
      in case c_fetch_account_info c username of
           Inl e \<Rightarrow> (Inl e, w1)
         | Inr None \<Rightarrow> (Inr None, w1)
         | Inr (Some account_data) \<Rightarrow>
            (let (account, w3) =
               (case get_account (w_db w1) (c_platform c) username of
                  Some existing \<Rightarrow>
                    (let existing1 = existing\<lparr>
                           ra_display_name :=
                             dict_get (ad_display_name account_data) (ra_display_name existing),
                           ra_follower_count :=
                             dict_get (ad_follower_count account_data) (ra_follower_count existing),
                           ra_following_count :=
                             dict_get (ad_following_count account_data) (ra_following_count existing),
                           ra_post_count :=
                             dict_get (ad_post_count account_data) (ra_post_count existing),
                           ra_bio := dict_get (ad_bio account_data) (ra_bio existing)\<rparr>;
                         (now, w2) = datetime_now w1
                     in (existing1, w2\<lparr>w_db := update_account now existing1 (w_db w2)\<rparr>))
                | None \<Rightarrow>
                    (let account = \<lparr>a_platform = c_platform c, a_username = username,
                           a_display_name = dict_get (ad_display_name account_data) username,
                           a_account_id = dict_get (ad_account_id account_data) [],
                           a_follower_count = dict_get (ad_follower_count account_data) 0,
                           a_following_count = dict_get (ad_following_count account_data) 0,
                           a_post_count = dict_get (ad_post_count account_data) 0,
                           a_bio = dict_get (ad_bio account_data) []\<rparr>;
                         (now, w2) = datetime_now w1;
                         (account_id, db2) = add_account now account (w_db w2)
                     in (\<lparr>ra_id = account_id, ra_platform = a_platform account,
                           ra_username = a_username account,
                           ra_display_name = a_display_name account,
                           ra_account_id = a_account_id account,
                           ra_follower_count = a_follower_count account,
                           ra_following_count = a_following_count account,
                           ra_post_count = a_post_count account, ra_bio = a_bio account,
                           ra_created_at = [], ra_updated_at = []\<rparr>,
                         w2\<lparr>w_db := db2\<rparr>)));
                 (now, w4) = datetime_now w3;
                 snapshot = \<lparr>am_account_id = ra_id account, am_collected_at = now,
                      am_follower_count = ra_follower_count account,
                      am_following_count = ra_following_count account,
                      am_post_count = ra_post_count account,
                      am_total_likes = 0, am_total_comments = 0, am_total_views = 0\<rparr>
             in (Inr (Some account), w4\<lparr>w_db := snd (add_account_metrics snapshot (w_db w4))\<rparr>)))"

text \<open>
  The body of the \<^verbatim>\<open>for post_data in posts_data\<close> loop of \<^verbatim>\<open>collect_posts\<close>, and the loop.
  Nothing in the loop catches an exception: the first one ends it, and what earlier
  iterations committed stays in the database.
\<close>

definition collect_post ::
    "string \<Rightarrow> int \<Rightarrow> string \<Rightarrow> post_data \<Rightarrow> world \<Rightarrow> (error + Post) \<times> world" where
  "collect_post pf account_id now post_data w =
     (let post = \<lparr>p_id = None, p_account_id = account_id, p_platform = pf,
                   p_post_id = dict_get (pd_post_id post_data) (PyVal []),
                   p_post_type = dict_get (pd_post_type post_data) (PyVal ''video''),
                   p_caption = dict_get (pd_caption post_data) (PyVal []),
                   p_published_at = dict_get (pd_published_at post_data) (PyVal []),
                   p_url = dict_get (pd_url post_data) (PyVal []),
                   p_thumbnail_url = dict_get (pd_thumbnail_url post_data) (PyVal [])\<rparr>;
          (created, w1) = datetime_now w
      in case add_post created post (w_db w1) of
           (Inl e, db1) \<Rightarrow> (Inl e, w1\<lparr>w_db := db1\<rparr>)
         | (Inr post_id, db1) \<Rightarrow>
            (let post1 = post\<lparr>p_id := Some post_id\<rparr>;
                 metrics = \<lparr>pm_post_id = post_id, pm_collected_at = now,
                    pm_views = dict_get (pd_views post_data) (PyVal 0),
                    pm_likes = dict_get (pd_likes post_data) (PyVal 0),
                    pm_comments = dict_get (pd_comments post_data) (PyVal 0),
                    pm_shares = dict_get (pd_shares post_data) (PyVal 0),
                    pm_saves = dict_get (pd_saves post_data) (PyVal 0),
                    pm_plays = dict_get (pd_plays post_data) (PyVal 0),
                    pm_reach = dict_get (pd_reach post_data) (PyVal 0),
                    pm_impressions = dict_get (pd_impressions post_data) (PyVal 0)\<rparr>
             in case add_post_metrics metrics db1 of
                  (Inl e, db2) \<Rightarrow> (Inl e, w1\<lparr>w_db := db2\<rparr>)
                | (Inr metrics_id, db2) \<Rightarrow> (Inr post1, w1\<lparr>w_db := db2\<rparr>)))"

fun collect_posts_loop ::
    "string \<Rightarrow> int \<Rightarrow> string \<Rightarrow> post_data list \<Rightarrow> Post list \<Rightarrow> world
      \<Rightarrow> (error + Post list) \<times> world" where
  "collect_posts_loop pf account_id now [] ps w = (Inr ps, w)"
| "collect_posts_loop pf account_id now (post_data # rest) ps w =
     (case collect_post pf account_id now post_data w of
        (Inl e, w1) \<Rightarrow> (Inl e, w1)
      | (Inr post, w1) \<Rightarrow> collect_posts_loop pf account_id now rest (ps @ [post]) w1)"

definition collect_posts ::
    "collector \<Rightarrow> string \<Rightarrow> int \<Rightarrow> world \<Rightarrow> (error + Post list) \<times> world" where
  "collect_posts c username limit w =
     (case get_account (w_db w) (c_platform c) username of
        None \<Rightarrow> (Inr [], w)
      | Some account \<Rightarrow>
         (let w1 = w\<lparr>w_calls := w_calls w @ [FetchAccountPosts username limit]\<rparr>
          in case c_fetch_account_posts c username limit of
               Inl e \<Rightarrow> (Inl e, w1)
             | Inr posts_data \<Rightarrow>
                 if posts_data = [] then (Inr [], w1)
                 else (let (now, w2) = datetime_now w1
                       in collect_posts_loop (c_platform c) (ra_id account) now posts_data [] w2)))"

text \<open>
  \<^verbatim>\<open>collect_all\<close> and its result dictionary.  The message is an f-string in the source;
  here it is the case that produced it with the values it interpolates.
\<close>

datatype message =
    CannotGetAccountInfo string
  | Collected string nat
  | CollectionFailed error

record collect_result =
  r_account :: "accounts_row option"
  r_posts :: "Post list"
  r_success :: bool
  r_message :: message

definition collect_all ::
    "collector \<Rightarrow> string \<Rightarrow> int \<Rightarrow> world \<Rightarrow> collect_result \<times> world" where
  "collect_all c username post_limit w =
     (case collect_account c username w of
        (Inl e, w1) \<Rightarrow>
          (\<lparr>r_account = None, r_posts = [], r_success = False,
            r_message = CollectionFailed e\<rparr>, w1)
      | (Inr None, w1) \<Rightarrow>
          (\<lparr>r_account = None, r_posts = [], r_success = False,
            r_message = CannotGetAccountInfo username\<rparr>, w1)
      | (Inr (Some account), w1) \<Rightarrow>
          (case collect_posts c username post_limit w1 of
             (Inl e, w2) \<Rightarrow>
               (\<lparr>r_account = Some account, r_posts = [], r_success = False,
                 r_message = CollectionFailed e\<rparr>, w2)
           | (Inr ps, w2) \<Rightarrow>
               (\<lparr>r_account = Some account, r_posts = ps, r_success = True,
                 r_message = Collected username (length ps)\<rparr>, w2)))"

section \<open>The HTTP handler for deletion\<close>

text \<open>\<^verbatim>\<open>api_delete_account\<close> of \<^verbatim>\<open>web/app.py\<close>: it looks the id up and answers 404 without
  calling \<^verbatim>\<open>delete_account\<close> when there is no such account.\<close>

datatype response = NotFound404 | Deleted string string

definition api_delete_account :: "int \<Rightarrow> database \<Rightarrow> response \<times> database" where
  "api_delete_account account_id d =
     (case get_account_by_id d account_id of
        None \<Rightarrow> (NotFound404, d)
      | Some account \<Rightarrow>
          (Deleted (ra_platform account) (ra_username account), delete_account account_id d))"

text \<open>The number of rows of the posts table with a given \<^verbatim>\<open>(platform, post_id)\<close>.\<close>

definition count_posts :: "database \<Rightarrow> string \<Rightarrow> string \<Rightarrow> nat" where
  "count_posts d pf post_id =
     length (filter (\<lambda>r. rp_platform r = pf \<and> rp_post_id r = post_id) (posts d))"


section \<open>Example inputs\<close>

definition nasa :: Account where
  "nasa = \<lparr>a_platform = ''instagram'', a_username = ''nasa'', a_display_name = ''NASA'',
     a_account_id = ''528817151'', a_follower_count = 100, a_following_count = 5,
     a_post_count = 7, a_bio = ''space''\<rparr>"

definition orphan_metrics :: PostMetrics where
  "orphan_metrics = \<lparr>pm_post_id = 999, pm_collected_at = ''2024-01-01T00:00:00'',
     pm_views = PyVal 10, pm_likes = PyVal 2, pm_comments = PyVal 1, pm_shares = PyVal 0,
     pm_saves = PyVal 0, pm_plays = PyVal 10, pm_reach = PyVal 0, pm_impressions = PyVal 0\<rparr>"

definition reel :: Post where
  "reel = \<lparr>p_id = None, p_account_id = 1, p_platform = ''instagram'',
     p_post_id = PyVal ''p1'', p_post_type = PyVal ''reel'', p_caption = PyVal ''launch'',
     p_published_at = PyVal ''2024-01-01T09:00:00'', p_url = PyVal ''u1'',
     p_thumbnail_url = PyNone\<rparr>"

definition reel_again :: Post where
  "reel_again = \<lparr>p_id = None, p_account_id = 2, p_platform = ''instagram'',
     p_post_id = PyVal ''p1'', p_post_type = PyVal ''video'', p_caption = PyVal ''edited'',
     p_published_at = PyVal ''2025-05-05T05:00:00'', p_url = PyVal ''u2'',
     p_thumbnail_url = PyVal ''t2''\<rparr>"

definition launch_post :: post_data where
  "launch_post = \<lparr>pd_post_id = Some (PyVal ''p1''), pd_post_type = Some (PyVal ''reel''),
     pd_caption = Some (PyVal ''launch''),
     pd_published_at = Some (PyVal ''2024-01-01T09:00:00''),
     pd_url = Some (PyVal ''u1''), pd_thumbnail_url = Some (PyVal ''t1''),
     pd_views = Some (PyVal 10), pd_likes = Some (PyVal 2), pd_comments = Some (PyVal 1),
     pd_shares = Some (PyVal 0), pd_saves = Some (PyVal 0), pd_plays = Some (PyVal 10),
     pd_reach = None, pd_impressions = None\<rparr>"

text \<open>A collector whose account lookup finds nothing, one whose lookup raises, and the
  state of a fresh installation.\<close>

definition silent_collector :: collector where
  "silent_collector = \<lparr>c_platform = ''instagram'',
     c_fetch_account_info = (\<lambda>username. Inr None),
     c_fetch_account_posts = (\<lambda>username limit. Inr [launch_post])\<rparr>"

definition raising_collector :: collector where
  "raising_collector = \<lparr>c_platform = ''instagram'',
     c_fetch_account_info = (\<lambda>username. Inl CollaboratorError),
     c_fetch_account_posts = (\<lambda>username limit. Inr [launch_post])\<rparr>"

definition fresh_world :: world where
  "fresh_world = \<lparr>w_db = init_db, w_calls = [],
     w_clock = (\<lambda>n. if n = 0 then ''2024-01-01T10:00:00''
                     else if n = 1 then ''2024-01-01T10:00:01''
                     else if n = 2 then ''2024-01-01T10:00:02''
                     else if n = 3 then ''2024-01-01T10:00:03''
                     else if n = 4 then ''2024-01-01T10:00:04''
                     else ''2024-01-01T10:00:09''),
     w_ticks = 0\<rparr>"






definition nasa_row :: accounts_row where
  "nasa_row = \<lparr>ra_id = 1, ra_platform = ''instagram'', ra_username = ''nasa'',
     ra_display_name = ''NASA'', ra_account_id = ''528817151'', ra_follower_count = 100,
     ra_following_count = 5, ra_post_count = 3, ra_bio = [], ra_created_at = [],
     ra_updated_at = []\<rparr>"

text \<open>A post with two snapshots collected at the same instant, and the same post with
  two snapshots a day apart, the later one stored first.\<close>

definition snapshot :: "int \<Rightarrow> int \<Rightarrow> string \<Rightarrow> int \<Rightarrow> post_metrics_row" where
  "snapshot i post_id collected_at views =
     \<lparr>rpm_id = i, rpm_post_id = post_id, rpm_collected_at = collected_at,
      rpm_views = Some views, rpm_likes = Some 0, rpm_comments = Some 0, rpm_shares = Some 0,
      rpm_saves = Some 0, rpm_plays = Some 0, rpm_reach = Some 0, rpm_impressions = Some 0\<rparr>"

definition launch_row :: posts_row where
  "launch_row = \<lparr>rp_id = 1, rp_account_id = 1, rp_platform = ''instagram'',
     rp_post_id = ''p1'', rp_post_type = Some ''reel'', rp_caption = Some ''launch'',
     rp_published_at = Some ''2024-01-01T09:00:00'', rp_url = Some ''u1'',
     rp_thumbnail_url = Some ''t1'', rp_created_at = ''2024-01-01T10:00:03''\<rparr>"



text \<open>Two accounts, each with one post, one post snapshot and one account snapshot.\<close>

definition esa_row :: accounts_row where
  "esa_row = nasa_row\<lparr>ra_id := 2, ra_username := ''esa'', ra_display_name := ''ESA''\<rparr>"

definition ariane_row :: posts_row where
  "ariane_row = launch_row\<lparr>rp_id := 2, rp_account_id := 2, rp_post_id := ''p2''\<rparr>"

definition followers :: "int \<Rightarrow> int \<Rightarrow> account_metrics_row" where
  "followers i account_id =
     \<lparr>ram_id = i, ram_account_id = account_id, ram_collected_at = ''2024-01-01T10:00:01'',
      ram_follower_count = 100, ram_following_count = 5, ram_post_count = 3,
      ram_total_likes = 0, ram_total_comments = 0, ram_total_views = 0\<rparr>"

definition two_accounts_db :: database where
  "two_accounts_db = \<lparr>accounts = [nasa_row, esa_row], posts = [launch_row, ariane_row],
     post_metrics = [snapshot 1 1 ''2024-01-01T10:00:02'' 10,
                     snapshot 2 2 ''2024-01-01T10:00:02'' 20],
     account_metrics = [followers 1 1, followers 2 2],
     seq_accounts = 2, seq_posts = 2, seq_post_metrics = 2, seq_account_metrics = 2\<rparr>"

section \<open>Properties\<close>

subsection \<open>Row identifiers\<close>

lemma max_rowid_ge: "i \<in> set ids \<Longrightarrow> i \<le> max_rowid ids"
  by (induction ids rule: max_rowid.induct) auto

lemma new_rowid_fresh: "i \<in> set ids \<Longrightarrow> i < new_rowid seq ids"
  using max_rowid_ge [of i ids] by (auto simp: new_rowid_def)

lemma new_rowid_above_seq: "seq < new_rowid seq ids"
  by (simp add: new_rowid_def)

lemma find_Some_mem: "find P xs = Some x \<Longrightarrow> x \<in> set xs \<and> P x"
  by (induction xs) (auto split: if_splits)

subsection \<open>C1: identity of an account under repeated upserts\<close>

text \<open>
  \<^verbatim>\<open>add_account\<close> on a pair that is already stored replaces the row, and the new row has a
  larger id than the row it replaces: the id that \<^verbatim>\<open>get_account\<close> returns changes.
\<close>

lemma add_account_existing_new_id:
  assumes "get_account d (a_platform account) (a_username account) = Some r"
  shows "ra_id r < fst (add_account now account d)"
    and "map_option ra_id (get_account (snd (add_account now account d))
           (a_platform account) (a_username account)) = Some (fst (add_account now account d))"
proof -
  from assms have "r \<in> set (accounts d)"
    by (auto simp: get_account_def dest: find_Some_mem)
  then have "ra_id r \<in> set (map ra_id (accounts d))" by simp
  then show "ra_id r < fst (add_account now account d)"
    by (simp add: add_account_def Let_def new_rowid_fresh)
  define P where "P = (\<lambda>r::accounts_row. ra_platform r = a_platform account \<and> ra_username r = a_username account)"
  define row where "row = \<lparr>ra_id = fst (add_account now account d),
      ra_platform = a_platform account, ra_username = a_username account,
      ra_display_name = a_display_name account, ra_account_id = a_account_id account,
      ra_follower_count = a_follower_count account,
      ra_following_count = a_following_count account,
      ra_post_count = a_post_count account, ra_bio = a_bio account,
      ra_created_at = now, ra_updated_at = now\<rparr>"
  have key: "find P (filter (\<lambda>r. \<not> P r) rows @ [x]) = (if P x then Some x else None)"
    for rows x
    by (induction rows) auto
  have "accounts (snd (add_account now account d)) = filter (\<lambda>r. \<not> P r) (accounts d) @ [row]"
    unfolding P_def row_def by (simp add: add_account_def Let_def)
  moreover have "P row" by (simp add: P_def row_def)
  ultimately have "find P (accounts (snd (add_account now account d))) = Some row"
    by (simp add: key)
  moreover have "get_account (snd (add_account now account d))
       (a_platform account) (a_username account)
     = find P (accounts (snd (add_account now account d)))"
    by (simp add: get_account_def P_def)
  ultimately show "map_option ra_id (get_account (snd (add_account now account d))
           (a_platform account) (a_username account)) = Some (fst (add_account now account d))"
    by (simp add: row_def)
qed

text \<open>
  C1, at a concrete input.  Upserting \<^verbatim>\<open>('instagram', 'nasa')\<close> twice through
  \<^verbatim>\<open>Database.add_account\<close>, the second time with a new follower count: the first call
  creates the account with id 1, the second returns 2, and \<^verbatim>\<open>get_account\<close> returns the
  row with id 1 after the first call and a row with id 2 after the second.  Identity
  stability asks for 1 both times.
\<close>

theorem add_account_twice_changes_id:
  "(let (id1, d1) = add_account ''2024-01-01T00:00:00'' nasa init_db;
        (id2, d2) = add_account ''2024-01-02T00:00:00'' (nasa\<lparr>a_follower_count := 101\<rparr>) d1
    in (id1, map_option ra_id (get_account d1 ''instagram'' ''nasa''),
        id2, map_option ra_id (get_account d2 ''instagram'' ''nasa''),
        map ra_id (accounts d2)))
   = (1, Some 1, 2, Some 2, [2])"
  by (simp add: add_account_def get_account_def init_db_def nasa_def new_rowid_def Let_def)

subsection \<open>C6: deleting an account\<close>

text \<open>
  C6.  \<^verbatim>\<open>delete_account(A)\<close> keeps, in each table and in their order, exactly the rows
  that do not belong to account \<open>A\<close>: the accounts with another id, the posts and the
  account snapshots with another \<^verbatim>\<open>account_id\<close>, and the post snapshots that reference no
  post of \<open>A\<close>.  So the account row, its posts, their snapshots and its account snapshots
  are gone, every other row is untouched, and the sequence counters are as before.
\<close>

theorem delete_account_cascade:
  "accounts (delete_account A d) = filter (\<lambda>r. ra_id r \<noteq> A) (accounts d) \<and>
   posts (delete_account A d) = filter (\<lambda>p. rp_account_id p \<noteq> A) (posts d) \<and>
   post_metrics (delete_account A d) =
     filter (\<lambda>m. rpm_post_id m \<notin> rp_id ` {p \<in> set (posts d). rp_account_id p = A})
       (post_metrics d) \<and>
   account_metrics (delete_account A d) =
     filter (\<lambda>m. ram_account_id m \<noteq> A) (account_metrics d) \<and>
   get_account_by_id (delete_account A d) A = None \<and>
   (seq_accounts (delete_account A d), seq_posts (delete_account A d),
    seq_post_metrics (delete_account A d), seq_account_metrics (delete_account A d)) =
   (seq_accounts d, seq_posts d, seq_post_metrics d, seq_account_metrics d)"
proof -
  have gone: "find (\<lambda>r. ra_id r = A) (filter (\<lambda>r. ra_id r \<noteq> A) rows) = None" for rows
    by (induction rows) auto
  have "accounts (delete_account A d) = filter (\<lambda>r. ra_id r \<noteq> A) (accounts d)"
    by (simp add: delete_account_def Let_def)
  moreover have "posts (delete_account A d) = filter (\<lambda>p. rp_account_id p \<noteq> A) (posts d)"
    by (simp add: delete_account_def Let_def)
  moreover have "post_metrics (delete_account A d) =
     filter (\<lambda>m. rpm_post_id m \<notin> rp_id ` {p \<in> set (posts d). rp_account_id p = A})
       (post_metrics d)"
    by (simp add: delete_account_def Let_def)
  moreover have "account_metrics (delete_account A d) =
     filter (\<lambda>m. ram_account_id m \<noteq> A) (account_metrics d)"
    by (simp add: delete_account_def Let_def)
  moreover have "get_account_by_id (delete_account A d) A = None"
    by (simp add: get_account_by_id_def delete_account_def Let_def gone)
  moreover have "(seq_accounts (delete_account A d), seq_posts (delete_account A d),
    seq_post_metrics (delete_account A d), seq_account_metrics (delete_account A d)) =
   (seq_accounts d, seq_posts d, seq_post_metrics d, seq_account_metrics d)"
    by (simp add: delete_account_def Let_def)
  ultimately show ?thesis by blast
qed

text \<open>The same at a store with two accounts: deleting the first leaves exactly the rows
  of the second.\<close>

theorem delete_account_cascade_witness:
  "get_account_by_id two_accounts_db 1 = Some nasa_row \<and>
   delete_account 1 two_accounts_db =
     \<lparr>accounts = [esa_row], posts = [ariane_row],
      post_metrics = [snapshot 2 2 ''2024-01-01T10:00:02'' 20],
      account_metrics = [followers 2 2],
      seq_accounts = 2, seq_posts = 2, seq_post_metrics = 2, seq_account_metrics = 2\<rparr>"
proof -
  have ex: "get_account_by_id two_accounts_db 1 = Some nasa_row"
    by (simp add: get_account_by_id_def two_accounts_db_def nasa_row_def)
  have ids: "ra_id nasa_row = 1" "ra_id esa_row = 2" "rp_account_id launch_row = 1"
    "rp_account_id ariane_row = 2" "rp_id launch_row = 1" "rp_id ariane_row = 2"
    by (simp_all add: nasa_row_def esa_row_def launch_row_def ariane_row_def)
  have tables: "accounts two_accounts_db = [nasa_row, esa_row]"
    "posts two_accounts_db = [launch_row, ariane_row]"
    "post_metrics two_accounts_db = [snapshot 1 1 ''2024-01-01T10:00:02'' 10,
                     snapshot 2 2 ''2024-01-01T10:00:02'' 20]"
    "account_metrics two_accounts_db = [followers 1 1, followers 2 2]"
    "seq_accounts two_accounts_db = 2" "seq_posts two_accounts_db = 2"
    "seq_post_metrics two_accounts_db = 2" "seq_account_metrics two_accounts_db = 2"
    by (simp_all add: two_accounts_db_def)
  have refs: "rpm_post_id (snapshot i q t v) = q" "ram_account_id (followers i a) = a" for i q t v a
    by (simp_all add: snapshot_def followers_def)
  have "{p \<in> set (posts two_accounts_db). rp_account_id p = 1} = {launch_row}"
    by (auto simp: tables ids)
  then have owned: "rp_id ` {p \<in> set (posts two_accounts_db). rp_account_id p = 1} = {1}"
    by (simp add: ids)
  from delete_account_cascade [of 1 two_accounts_db, unfolded owned]
  have "delete_account 1 two_accounts_db =
     \<lparr>accounts = [esa_row], posts = [ariane_row],
      post_metrics = [snapshot 2 2 ''2024-01-01T10:00:02'' 20],
      account_metrics = [followers 2 2],
      seq_accounts = 2, seq_posts = 2, seq_post_metrics = 2, seq_account_metrics = 2\<rparr>"
    by (intro database.equality) (simp_all add: ids tables refs)
  with ex show ?thesis by simp
qed

subsection \<open>C7: a snapshot for a post that does not exist\<close>

text \<open>
  C7, at a concrete input.  The empty database holds no post with id 999, and
  \<^verbatim>\<open>add_post_metrics\<close> for \<^verbatim>\<open>post_id = 999\<close> returns the new snapshot id 1 and stores the
  orphaned row; referential integrity asks for an error and no row.
\<close>

theorem add_post_metrics_orphan:
  "get_post_by_id init_db 999 = None \<and>
   fst (add_post_metrics orphan_metrics init_db) = Inr 1 \<and>
   map (\<lambda>m. (rpm_id m, rpm_post_id m))
     (post_metrics (snd (add_post_metrics orphan_metrics init_db))) = [(1, 999)]"
  by (simp add: get_post_by_id_def add_post_metrics_def orphan_metrics_def init_db_def
      supported_def new_rowid_def Let_def)

subsection \<open>C8: deleting an account that does not exist\<close>

text \<open>
  C8 as stated fails: in the empty database there is no account 7, and
  \<^verbatim>\<open>delete_account(7)\<close> returns normally, leaving the database as it was.
\<close>

theorem delete_account_missing_counterexample:
  "get_account_by_id init_db 7 = None \<and> delete_account 7 init_db = init_db"
  by (simp add: get_account_by_id_def delete_account_def init_db_def Let_def)

text \<open>
  C8, amended.  For an id that no account row has, \<^verbatim>\<open>Database.delete_account\<close> returns
  normally and leaves the accounts table as it is (and the whole database, when no post
  and no account snapshot references the id); the not-found answer is given by the HTTP
  handler \<^verbatim>\<open>api_delete_account\<close>, which replies 404 and leaves the database untouched.
\<close>

theorem delete_account_missing:
  assumes "get_account_by_id d A = None"
  shows "accounts (delete_account A d) = accounts d \<and>
         (filter (\<lambda>p. rp_account_id p = A) (posts d) = [] \<and>
          filter (\<lambda>m. ram_account_id m = A) (account_metrics d) = []
            \<longrightarrow> delete_account A d = d) \<and>
         api_delete_account A d = (NotFound404, d)"
proof -
  have keep: "filter (\<lambda>x. f x \<noteq> A) xs = xs" if "filter (\<lambda>x. f x = A) xs = []"
    for f :: "'a \<Rightarrow> int" and xs
    using that by (induction xs) (auto split: if_splits)
  have none: "filter (\<lambda>r. ra_id r = A) (accounts d) = []"
    using assms unfolding get_account_by_id_def
    by (induction "accounts d") (auto simp: find_None_iff filter_empty_conv)
  have a: "accounts (delete_account A d) = accounts d"
    by (simp add: delete_account_def Let_def keep [OF none])
  have b: "delete_account A d = d"
    if p: "filter (\<lambda>p. rp_account_id p = A) (posts d) = []"
    and m: "filter (\<lambda>m. ram_account_id m = A) (account_metrics d) = []"
    by (simp add: delete_account_def Let_def keep [OF none] keep [OF p] keep [OF m] p)
  have c: "api_delete_account A d = (NotFound404, d)"
    by (simp add: api_delete_account_def assms)
  from a b c show ?thesis by blast
qed

theorem delete_account_missing_witness:
  "get_account_by_id init_db 7 = None \<and>
   accounts (delete_account 7 init_db) = accounts init_db \<and>
   delete_account 7 init_db = init_db \<and>
   api_delete_account 7 init_db = (NotFound404, init_db)"
proof -
  have h: "get_account_by_id init_db 7 = None"
    by (simp add: get_account_by_id_def init_db_def)
  have e: "filter (\<lambda>p. rp_account_id p = 7) (posts init_db) = [] \<and>
           filter (\<lambda>m. ram_account_id m = 7) (account_metrics init_db) = []"
    by (simp add: init_db_def)
  show ?thesis using h e delete_account_missing [OF h] by simp
qed

subsection \<open>C2: upserting a post twice\<close>

lemma find_list_ex: "find P xs = Some x \<Longrightarrow> list_ex P xs"
  by (induction xs) (auto split: if_splits)

lemma find_append_no_match: "\<not> list_ex P xs \<Longrightarrow> find P (xs @ ys) = find P ys"
  by (induction xs) auto

lemma filter_no_match: "\<not> list_ex P xs \<Longrightarrow> filter P xs = []"
  by (induction xs) auto

lemma filter_some_match: "list_ex P xs \<Longrightarrow> 0 < length (filter P xs)"
  by (induction xs) auto

text \<open>A call of \<^verbatim>\<open>add_post\<close> that returns an id leaves a row for the pair that the
  \<^verbatim>\<open>SELECT\<close> of a later call finds under that id, and touches no other table.\<close>

lemma add_post_success:
  assumes "add_post now post d = (Inr i, d1)"
  shows "\<exists>s. p_post_id post = PyVal s \<and>
           select_post_id d1 (p_platform post) (PyVal s) = Some i \<and>
           accounts d1 = accounts d \<and> post_metrics d1 = post_metrics d \<and>
           account_metrics d1 = account_metrics d \<and>
           (count_posts d (p_platform post) s \<le> 1 \<longrightarrow> count_posts d1 (p_platform post) s = 1)"
proof (cases "p_post_id post")
  case PyNone
  with assms show ?thesis
    by (simp add: add_post_def insert_or_ignore_post_def select_post_id_def Let_def
        split: if_splits)
next
  case PyUnsupported
  with assms show ?thesis
    by (simp add: add_post_def supported_def)
next
  case (PyVal s)
  define P where "P = (\<lambda>r::posts_row. rp_platform r = p_platform post \<and> rp_post_id r = s)"
  show ?thesis
  proof (cases "list_ex P (posts d)")
    case True
    then have "0 < length (filter P (posts d))" by (rule filter_some_match)
    then have cnt: "count_posts d (p_platform post) s \<le> 1 \<longrightarrow>
        count_posts d (p_platform post) s = 1"
      unfolding P_def count_posts_def by arith
    from assms PyVal True have "posts d1 = posts d"
      unfolding P_def
      by (auto simp: add_post_def insert_or_ignore_post_def Let_def
          split: if_splits option.splits)
    then have same: "count_posts d1 (p_platform post) s = count_posts d (p_platform post) s"
      by (simp add: count_posts_def)
    from assms PyVal True have "select_post_id d1 (p_platform post) (PyVal s) = Some i \<and>
           accounts d1 = accounts d \<and> post_metrics d1 = post_metrics d \<and>
           account_metrics d1 = account_metrics d"
      unfolding P_def
      by (auto simp: add_post_def insert_or_ignore_post_def select_post_id_def Let_def
          split: if_splits option.splits)
    with PyVal cnt same show ?thesis by simp
  next
    case False
    from False have f: "find P (posts d @ ys) = find P ys" for ys
      by (rule find_append_no_match)
    from False have g: "filter P (posts d) = []" by (rule filter_no_match)
    from assms PyVal False f g show ?thesis
      unfolding P_def
      by (auto simp: add_post_def insert_or_ignore_post_def select_post_id_def Let_def
          count_posts_def split: if_splits option.splits)
  qed
qed

text \<open>\<^verbatim>\<open>add_post\<close> for a pair that is stored: the insert is ignored, only the sequence
  counter moves, and the id of the stored row is returned.\<close>

lemma add_post_existing:
  assumes sel: "select_post_id d1 (p_platform post) (PyVal s) = Some i"
    and key: "p_post_id post = PyVal s"
    and ok: "supported (p_post_type post)" "supported (p_caption post)"
      "supported (p_published_at post)" "supported (p_url post)"
      "supported (p_thumbnail_url post)"
  shows "add_post now post d1 =
           (Inr i, d1\<lparr>seq_posts := new_rowid (seq_posts d1) (map rp_id (posts d1))\<rparr>)"
proof -
  define P where "P = (\<lambda>r::posts_row. rp_platform r = p_platform post \<and> rp_post_id r = s)"
  from sel have "find P (posts d1) \<noteq> None"
    by (auto simp: select_post_id_def P_def)
  then have ex: "list_ex P (posts d1)"
    by (auto dest: find_list_ex)
  from sel ex key ok show ?thesis
    unfolding P_def
    by (auto simp: add_post_def insert_or_ignore_post_def select_post_id_def Let_def
        supported_def)
qed

text \<open>
  C2.  Let a first \<^verbatim>\<open>add_post\<close> return the id \<open>i\<close>, and let a second post have the same
  \<^verbatim>\<open>(platform, post_id)\<close> and any other fields that sqlite3 can bind.  Then the second
  \<^verbatim>\<open>add_post\<close> returns \<open>i\<close> again and leaves the four tables as the first call left them:
  no row is added and no stored field is overwritten.  If the database had at most one
  row for the pair before, it has exactly one after both calls.
\<close>

theorem add_post_twice:
  assumes "add_post now1 post1 d = (Inr i, d1)"
    and "p_platform post2 = p_platform post1"
    and "p_post_id post2 = p_post_id post1"
    and "supported (p_post_type post2)" and "supported (p_caption post2)"
    and "supported (p_published_at post2)" and "supported (p_url post2)"
    and "supported (p_thumbnail_url post2)"
  shows "fst (add_post now2 post2 d1) = Inr i \<and>
         posts (snd (add_post now2 post2 d1)) = posts d1 \<and>
         accounts (snd (add_post now2 post2 d1)) = accounts d1 \<and>
         post_metrics (snd (add_post now2 post2 d1)) = post_metrics d1 \<and>
         account_metrics (snd (add_post now2 post2 d1)) = account_metrics d1 \<and>
         (\<exists>s. p_post_id post1 = PyVal s \<and>
              (count_posts d (p_platform post1) s \<le> 1 \<longrightarrow>
               count_posts (snd (add_post now2 post2 d1)) (p_platform post1) s = 1))"
proof -
  from add_post_success [OF assms(1)] obtain s where
    s: "p_post_id post1 = PyVal s"
    and sel: "select_post_id d1 (p_platform post1) (PyVal s) = Some i"
    and cnt: "count_posts d (p_platform post1) s \<le> 1 \<longrightarrow> count_posts d1 (p_platform post1) s = 1"
    by blast
  have "add_post now2 post2 d1 =
          (Inr i, d1\<lparr>seq_posts := new_rowid (seq_posts d1) (map rp_id (posts d1))\<rparr>)"
    using sel s assms(2-8) by (intro add_post_existing) simp_all
  with s cnt show ?thesis by (simp add: count_posts_def)
qed

theorem add_post_twice_witness:
  "add_post ''2024-01-01T10:00:00'' reel init_db
     = (Inr 1, snd (add_post ''2024-01-01T10:00:00'' reel init_db)) \<and>
   fst (add_post ''2024-01-02T10:00:00'' reel_again
          (snd (add_post ''2024-01-01T10:00:00'' reel init_db))) = Inr 1 \<and>
   map (\<lambda>r. (rp_id r, rp_account_id r, rp_post_type r, rp_caption r, rp_created_at r))
     (posts (snd (add_post ''2024-01-02T10:00:00'' reel_again
          (snd (add_post ''2024-01-01T10:00:00'' reel init_db)))))
     = [(1, 1, Some ''reel'', Some ''launch'', ''2024-01-01T10:00:00'')] \<and>
   count_posts (snd (add_post ''2024-01-02T10:00:00'' reel_again
          (snd (add_post ''2024-01-01T10:00:00'' reel init_db)))) ''instagram'' ''p1'' = 1"
proof -
  have first: "add_post ''2024-01-01T10:00:00'' reel init_db
     = (Inr 1, snd (add_post ''2024-01-01T10:00:00'' reel init_db))"
    by (simp add: add_post_def insert_or_ignore_post_def init_db_def reel_def supported_def
        new_rowid_def Let_def)
  have rows: "map (\<lambda>r. (rp_id r, rp_account_id r, rp_post_type r, rp_caption r, rp_created_at r))
     (posts (snd (add_post ''2024-01-01T10:00:00'' reel init_db)))
     = [(1, 1, Some ''reel'', Some ''launch'', ''2024-01-01T10:00:00'')]"
    by (simp add: add_post_def insert_or_ignore_post_def init_db_def reel_def supported_def
        new_rowid_def to_sql_def Let_def)
  have before: "count_posts init_db ''instagram'' ''p1'' \<le> 1"
    by (simp add: count_posts_def init_db_def)
  have keys: "p_platform reel_again = p_platform reel" "p_post_id reel_again = p_post_id reel"
    "p_platform reel = ''instagram''" "p_post_id reel = PyVal ''p1''"
    by (simp_all add: reel_def reel_again_def)
  have ok: "supported (p_post_type reel_again)" "supported (p_caption reel_again)"
    "supported (p_published_at reel_again)" "supported (p_url reel_again)"
    "supported (p_thumbnail_url reel_again)"
    by (simp_all add: reel_again_def supported_def)
  from add_post_twice [OF first keys(1,2) ok, of "''2024-01-02T10:00:00''"]
  show ?thesis using first rows before keys(3,4) by auto
qed

subsection \<open>C4: a collection whose account lookup fails\<close>

text \<open>
  C4.  When \<^verbatim>\<open>fetch_account_info\<close> raises or returns nothing, \<^verbatim>\<open>collect_all\<close> ends with
  \<^verbatim>\<open>success = False\<close>, no account and no posts in its result, and the database it leaves
  is the database it started with; the only thing that happened is the one call to the
  platform.
\<close>

theorem collect_all_no_account_info:
  assumes "c_fetch_account_info c username = Inl e \<or>
           c_fetch_account_info c username = Inr None"
  shows "\<not> r_success (fst (collect_all c username post_limit w)) \<and>
         r_account (fst (collect_all c username post_limit w)) = None \<and>
         r_posts (fst (collect_all c username post_limit w)) = [] \<and>
         w_db (snd (collect_all c username post_limit w)) = w_db w \<and>
         w_calls (snd (collect_all c username post_limit w))
           = w_calls w @ [FetchAccountInfo username]"
  using assms
proof
  assume "c_fetch_account_info c username = Inl e"
  then show ?thesis by (simp add: collect_all_def collect_account_def Let_def)
next
  assume "c_fetch_account_info c username = Inr None"
  then show ?thesis by (simp add: collect_all_def collect_account_def Let_def)
qed

theorem collect_all_no_account_info_witness:
  "c_fetch_account_info silent_collector ''nasa'' = Inr None \<and>
   c_fetch_account_info raising_collector ''nasa'' = Inl CollaboratorError \<and>
   \<not> r_success (fst (collect_all silent_collector ''nasa'' 20 fresh_world)) \<and>
   w_db (snd (collect_all silent_collector ''nasa'' 20 fresh_world)) = init_db \<and>
   \<not> r_success (fst (collect_all raising_collector ''nasa'' 20 fresh_world)) \<and>
   w_db (snd (collect_all raising_collector ''nasa'' 20 fresh_world)) = init_db"
proof -
  have s: "c_fetch_account_info silent_collector ''nasa'' = Inr None"
    by (simp add: silent_collector_def)
  have r: "c_fetch_account_info raising_collector ''nasa'' = Inl CollaboratorError"
    by (simp add: raising_collector_def)
  have d: "w_db fresh_world = init_db" by (simp add: fresh_world_def)
  from collect_all_no_account_info [of silent_collector "''nasa''" CollaboratorError 20 fresh_world]
    collect_all_no_account_info [of raising_collector "''nasa''" CollaboratorError 20 fresh_world]
  show ?thesis using s r d by simp
qed

subsection \<open>C10: collecting posts of an account that is not stored\<close>



subsection \<open>The account after \<^verbatim>\<open>collect_account\<close>\<close>

lemma find_map_preserved:
  assumes "\<And>x. P (f x) = P x"
  shows "find P (map f xs) = map_option f (find P xs)"
  using assms by (induction xs) auto

lemma find_filter_not_append:
  "find P (filter (\<lambda>r. \<not> P r) rows @ [x]) = (if P x then Some x else None)"
  by (induction rows) auto

text \<open>\<^verbatim>\<open>update_account\<close> changes neither the id nor the pair of a row, so the lookup by
  pair finds the updated row under the id it had.\<close>

lemma get_account_after_update:
  assumes "get_account d pf username = Some existing"
  shows "\<exists>row. get_account (update_account now (existing\<lparr>ra_display_name := dn,
            ra_follower_count := fc, ra_following_count := fg, ra_post_count := pc,
            ra_bio := bio\<rparr>) d) pf username = Some row \<and> ra_id row = ra_id existing"
proof -
  define P where "P = (\<lambda>r::accounts_row. ra_platform r = pf \<and> ra_username r = username)"
  define f where "f = (\<lambda>r::accounts_row. if ra_id r = ra_id existing
          then r\<lparr>ra_display_name := dn, ra_follower_count := fc,
                 ra_following_count := fg, ra_post_count := pc,
                 ra_bio := bio, ra_updated_at := now\<rparr>
          else r)"
  have pres: "P (f x) = P x" for x by (simp add: P_def f_def)
  have idp: "ra_id (f x) = ra_id x" for x by (simp add: f_def)
  from assms have "find P (accounts d) = Some existing" by (simp add: get_account_def P_def)
  then have "find P (map f (accounts d)) = Some (f existing)"
    by (simp add: find_map_preserved [of P f, OF pres])
  moreover have "get_account (update_account now (existing\<lparr>ra_display_name := dn,
            ra_follower_count := fc, ra_following_count := fg, ra_post_count := pc,
            ra_bio := bio\<rparr>) d) pf username = find P (map f (accounts d))"
    by (simp add: get_account_def update_account_def P_def f_def cong: if_cong)
  ultimately show ?thesis using idp by simp
qed

lemma get_account_after_add:
  "\<exists>row. get_account (snd (add_account now account d)) (a_platform account) (a_username account)
      = Some row \<and> ra_id row = fst (add_account now account d)"
proof -
  define P where "P = (\<lambda>r::accounts_row.
      ra_platform r = a_platform account \<and> ra_username r = a_username account)"
  define row where "row = \<lparr>ra_id = fst (add_account now account d),
      ra_platform = a_platform account, ra_username = a_username account,
      ra_display_name = a_display_name account, ra_account_id = a_account_id account,
      ra_follower_count = a_follower_count account,
      ra_following_count = a_following_count account,
      ra_post_count = a_post_count account, ra_bio = a_bio account,
      ra_created_at = now, ra_updated_at = now\<rparr>"
  have "accounts (snd (add_account now account d)) = filter (\<lambda>r. \<not> P r) (accounts d) @ [row]"
    unfolding P_def row_def by (simp add: add_account_def Let_def)
  moreover have "P row" by (simp add: P_def row_def)
  ultimately have "find P (accounts (snd (add_account now account d))) = Some row"
    by (simp add: find_filter_not_append)
  moreover have "get_account (snd (add_account now account d))
       (a_platform account) (a_username account)
     = find P (accounts (snd (add_account now account d)))"
    by (simp add: get_account_def P_def)
  ultimately show ?thesis by (simp add: row_def)
qed

lemma get_account_add_account_metrics:
  "get_account (snd (add_account_metrics m d)) pf username = get_account d pf username"
  by (simp add: get_account_def add_account_metrics_def Let_def)

text \<open>After a successful \<^verbatim>\<open>collect_account\<close> the store holds a row for the pair, with the
  id of the account object that was returned.\<close>

lemma collect_account_stores:
  assumes "collect_account c username w = (Inr (Some account), w1)"
  shows "\<exists>row. get_account (w_db w1) (c_platform c) username = Some row \<and>
               ra_id row = ra_id account"
proof (cases "c_fetch_account_info c username")
  case (Inl e)
  with assms show ?thesis by (simp add: collect_account_def Let_def)
next
  case (Inr info)
  show ?thesis
  proof (cases info)
    case None
    with assms Inr show ?thesis by (simp add: collect_account_def Let_def)
  next
    case (Some account_data)
    show ?thesis
    proof (cases "get_account (w_db w) (c_platform c) username")
      case None
      from get_account_after_add [of "w_clock w (w_ticks w)"
          "\<lparr>a_platform = c_platform c, a_username = username,
             a_display_name = dict_get (ad_display_name account_data) username,
             a_account_id = dict_get (ad_account_id account_data) [],
             a_follower_count = dict_get (ad_follower_count account_data) 0,
             a_following_count = dict_get (ad_following_count account_data) 0,
             a_post_count = dict_get (ad_post_count account_data) 0,
             a_bio = dict_get (ad_bio account_data) []\<rparr>" "w_db w"]
      show ?thesis using assms Inr Some None
        by (auto simp: collect_account_def Let_def datetime_now_def
            get_account_add_account_metrics split: prod.splits)
    next
      case existing: (Some existing)
      from get_account_after_update [OF existing]
      show ?thesis using assms Inr Some existing
        by (auto simp: collect_account_def Let_def datetime_now_def
            get_account_add_account_metrics split: prod.splits)
    qed
  qed
qed

text \<open>The path through \<^verbatim>\<open>collect_account\<close> keeps the id of an account that is stored:
  it updates the row in place.\<close>

lemma collect_account_keeps_id:
  assumes "get_account (w_db w) (c_platform c) username = Some existing"
    and "collect_account c username w = (Inr (Some account), w1)"
  shows "ra_id account = ra_id existing \<and>
         map_option ra_id (get_account (w_db w1) (c_platform c) username) = Some (ra_id existing)"
proof -
  from assms have "ra_id account = ra_id existing"
    by (auto simp: collect_account_def Let_def datetime_now_def
        split: sum.splits option.splits prod.splits)
  with collect_account_stores [OF assms(2)] show ?thesis by auto
qed

subsection \<open>C5: a post that fails during collection\<close>

lemma loop_abort:
  "collect_posts_loop pf aid now xs ps w = (Inl e, w1) \<Longrightarrow>
   collect_posts_loop pf aid now (xs @ ys) ps w = (Inl e, w1)"
  by (induction xs arbitrary: ps w) (auto split: prod.splits sum.splits)







subsection \<open>C3: the latest snapshot of a post\<close>






























end
